theory Spec2Isabelle
  imports Main "HOL-Library.Multiset"
begin

section \<open>Parallel computation of SCF density matrices\<close>

text \<open>
  A shallow embedding of \<^verbatim>\<open>parallel_density_compute.py\<close>. The script loads a dataset,
  computes one density matrix per molecule in a pool of worker processes, separates the
  results from the failures, and pickles both with some metadata into one file.

  The collaborators that the script imports (\<^verbatim>\<open>load_dataset\<close>, \<^verbatim>\<open>scf_density_matrix\<close>,
  \<^verbatim>\<open>multiprocessing.Pool\<close>) are not part of the script. They are parameters of the model,
  collected in the record \<open>env\<close>; every theorem holds for all of them.
\<close>

subsection \<open>Python values\<close>

text \<open>
  An exception that a collaborator raises. The handler of \<^verbatim>\<open>compute_density_safe\<close> is
  \<^verbatim>\<open>except Exception as e\<close>: it catches the instances of \<^verbatim>\<open>Exception\<close> and lets every other
  \<^verbatim>\<open>BaseException\<close> (\<^verbatim>\<open>KeyboardInterrupt\<close>, \<^verbatim>\<open>SystemExit\<close>, \<^verbatim>\<open>GeneratorExit\<close>) pass.

  The argument of either constructor is what \<^verbatim>\<open>str(e)\<close> does: \<open>Inr s\<close> when it returns the
  string \<open>s\<close>, \<open>Inl e'\<close> when it raises \<open>e'\<close> (a \<^verbatim>\<open>__str__\<close> that fails, or that returns
  something that is no string).
\<close>

datatype py_exception =
    Exception "py_exception + string"
  | Other_BaseException "py_exception + string"

text \<open>\<^verbatim>\<open>str(n)\<close> for a Python integer: decimal digits, with a minus sign when negative.\<close>

definition digit_char :: "nat \<Rightarrow> char" where
  "digit_char d = char_of (48 + d)"

fun str_nat :: "nat \<Rightarrow> string" where
  "str_nat n = (if n < 10 then [digit_char n] else str_nat (n div 10) @ [digit_char (n mod 10)])"

definition str_int :: "int \<Rightarrow> string" where
  "str_int i = (if i < 0 then CHR ''-'' # str_nat (nat (- i)) else str_nat (nat i))"

text \<open>\<^verbatim>\<open>len(xs)\<close> is a Python integer.\<close>

definition len :: "'a list \<Rightarrow> int" where
  "len xs = int (length xs)"

text \<open>
  \<^verbatim>\<open>[(i, atoms) for i, atoms in enumerate(ds)]\<close>: the items of \<open>ds\<close> paired with their
  positions, counted from 0.
\<close>

definition enumerate_from :: "'a list \<Rightarrow> (int \<times> 'a) list" where
  "enumerate_from ds = zip (map int [0..<length ds]) ds"

text \<open>
  A Python \<^verbatim>\<open>dict\<close> is an association list in insertion order with distinct keys:
  \<^verbatim>\<open>d[k] = v\<close> replaces the value of a key that is present, in place, and appends a new
  key at the end. \<^verbatim>\<open>len(d)\<close> is the length of the list, \<^verbatim>\<open>d.keys()\<close> its first
  components, and Python's \<^verbatim>\<open>d1 == d2\<close> is \<open>map_of d1 = map_of d2\<close>.
\<close>

type_synonym ('k, 'v) dict = "('k \<times> 'v) list"

primrec setitem :: "('k, 'v) dict \<Rightarrow> 'k \<Rightarrow> 'v \<Rightarrow> ('k, 'v) dict" where
  "setitem [] k v = [(k, v)]"
| "setitem (p # ps) k v = (if fst p = k then (k, v) # ps else p # setitem ps k v)"

definition keys :: "('k, 'v) dict \<Rightarrow> 'k list" where
  "keys d = map fst d"

subsection \<open>The output artifact and the effects of a run\<close>

record metadata =
  basis :: string
  total_molecules :: int
  successful :: int
  failed :: int

text \<open>
  \<^verbatim>\<open>output_data\<close>. A value of \<open>densities\<close> is what the second component of a result
  triple holds, which Python allows to be \<^verbatim>\<open>None\<close>: hence \<open>'dm option\<close>.
\<close>

record 'dm output_data =
  densities :: "(int, 'dm option) dict"
  errors :: "(int, string) dict"
  metadata :: metadata

text \<open>
  What a run does to the world, in order: a line printed, the worker pool entered and
  left (the \<^verbatim>\<open>with\<close> block of \<^verbatim>\<open>main\<close>), an object pickled into a file opened with \<^verbatim>\<open>'wb'\<close>.
  The workers print from their own processes; the trace lists their lines in submission
  order between \<open>Pool_enter\<close> and \<open>Pool_exit\<close>, and no theorem below depends on the order
  of the workers' lines among themselves. Printing, opening the output file and pickling
  are taken to succeed: the script handles no failure of theirs. The trace of a run that
  fails ends at the failure.
\<close>

datatype 'dm event =
    Print string
  | Pool_enter int
  | Pool_exit
  | Pickle_dump string "'dm output_data"

text \<open>
  Why a run did not reach its last line.
  \<^item> \<open>Load_failed e\<close>: \<^verbatim>\<open>load_dataset\<close> raised \<open>e\<close>, and so does \<^verbatim>\<open>main\<close>.
  \<^item> \<open>Pool_failed e\<close>: creating the pool raised \<open>e\<close>, and so does \<^verbatim>\<open>main\<close>.
  \<^item> \<open>Worker_died e\<close>: a call of the wrapper in a worker raised \<open>e\<close>, which is no instance of
    \<^verbatim>\<open>Exception\<close>. The worker loop of \<^verbatim>\<open>multiprocessing\<close> catches \<^verbatim>\<open>Exception\<close> only: the worker
    process dies, its task is lost, and \<^verbatim>\<open>pool.map\<close> waits for it forever. The run never
    returns.
  \<^item> \<open>Worker_raised e\<close>: a call of the wrapper in a worker raised \<open>e\<close>, an instance of
    \<^verbatim>\<open>Exception\<close>. The worker sends it back and \<^verbatim>\<open>pool.map\<close> gives no result list: it raises
    a worker's exception once the other tasks are done, and waits forever if one of those
    kills its worker.
\<close>

datatype run_failure =
    Load_failed py_exception
  | Pool_failed py_exception
  | Worker_raised py_exception
  | Worker_died py_exception

fun worker_failure :: "py_exception \<Rightarrow> run_failure" where
  "worker_failure (Exception x) = Worker_raised (Exception x)"
| "worker_failure (Other_BaseException x) = Worker_died (Other_BaseException x)"

text \<open>
  The collaborators. \<open>scf_density_matrix atoms basis\<close> returns a density matrix of type
  \<open>'dm\<close> (a numerical array, never \<^verbatim>\<open>None\<close>) or raises. \<open>Pool n\<close> is \<open>Some e\<close> when
  creating the pool of \<open>n\<close> processes raises \<open>e\<close>.
\<close>

record ('atoms, 'dm) env =
  load_dataset :: "string \<Rightarrow> string \<Rightarrow> py_exception + 'atoms list"
  scf_density_matrix :: "'atoms \<Rightarrow> string \<Rightarrow> py_exception + 'dm"
  Pool :: "int \<Rightarrow> py_exception option"

subsection \<open>\<^verbatim>\<open>compute_density_safe\<close>\<close>

type_synonym 'dm result_triple = "int \<times> 'dm option \<times> string option"

definition error_message :: "int \<Rightarrow> string \<Rightarrow> string" where
  "error_message idx s = ''Error computing density for molecule '' @ str_int idx @ '': '' @ s"

text \<open>
  Returns the lines printed and either the triple \<^verbatim>\<open>(index, density_matrix, error_message)\<close>
  or, as \<open>Inl\<close>, the exception that leaves the function: one that the handler does not
  catch, or the one that \<^verbatim>\<open>str(e)\<close> raises inside the handler, before anything is printed.
\<close>

definition compute_density_safe ::
  "('atoms, 'dm) env \<Rightarrow> int \<times> 'atoms \<Rightarrow> 'dm event list \<times> (py_exception + 'dm result_triple)" where
  "compute_density_safe env args =
     (case args of (idx, atoms) \<Rightarrow>
        (case scf_density_matrix env atoms ''sto-3g'' of
           Inr density_matrix \<Rightarrow> ([], Inr (idx, Some density_matrix, None))
         | Inl (Exception str_e) \<Rightarrow>
             (case str_e of
                Inr s \<Rightarrow>
                  (let error_msg = error_message idx s
                   in ([Print error_msg], Inr (idx, None, Some error_msg)))
              | Inl e' \<Rightarrow> ([], Inl e'))
         | Inl (Other_BaseException str_e) \<Rightarrow> ([], Inl (Other_BaseException str_e))))"

subsection \<open>\<^verbatim>\<open>main\<close>\<close>

text \<open>
  \<^verbatim>\<open>pool.map(f, args_list)\<close> blocks until every item is done and returns the results in
  the order of \<^verbatim>\<open>args_list\<close>. When a call raises there is no result list: \<open>Inl e\<close> is the
  exception of the first such call in submission order, and the lines are those of the
  items before it. What the other workers still print after that is not recorded.
\<close>

fun pool_map ::
  "('a \<Rightarrow> 'dm event list \<times> (py_exception + 'b)) \<Rightarrow> 'a list
     \<Rightarrow> 'dm event list \<times> (py_exception + 'b list)" where
  "pool_map f [] = ([], Inr [])"
| "pool_map f (x # xs) =
     (case f x of
        (ev, Inl e) \<Rightarrow> (ev, Inl e)
      | (ev, Inr y) \<Rightarrow>
          (case pool_map f xs of
             (evs, Inl e) \<Rightarrow> (ev @ evs, Inl e)
           | (evs, Inr ys) \<Rightarrow> (ev @ evs, Inr (y # ys))))"

text \<open>
  The loop that separates the successful results from the errors, started by \<^verbatim>\<open>main\<close> on
  two empty dictionaries; \<open>dens\<close> and \<open>errs\<close> are the dictionaries \<^verbatim>\<open>densities\<close> and
  \<^verbatim>\<open>errors\<close> of the source.
\<close>

fun separate ::
  "'dm result_triple list \<Rightarrow> (int, 'dm option) dict \<Rightarrow> (int, string) dict
     \<Rightarrow> (int, 'dm option) dict \<times> (int, string) dict" where
  "separate [] dens errs = (dens, errs)"
| "separate ((idx, density_matrix, error_msg) # results) dens errs =
     (case error_msg of
        None \<Rightarrow> separate results (setitem dens idx density_matrix) errs
      | Some msg \<Rightarrow> separate results dens (setitem errs idx msg))"

definition make_output ::
  "'atoms list \<Rightarrow> (int, 'dm option) dict \<Rightarrow> (int, string) dict \<Rightarrow> 'dm output_data" where
  "make_output ds dens errs =
     \<lparr> densities = dens,
       errors = errs,
       metadata = \<lparr> basis = ''sto-3g'',
                    total_molecules = len ds,
                    successful = len dens,
                    failed = len errs \<rparr> \<rparr>"

text \<open>\<^verbatim>\<open>str(list(errors.keys()))\<close>.\<close>

fun join_comma :: "string list \<Rightarrow> string" where
  "join_comma [] = []"
| "join_comma [s] = s"
| "join_comma (s # t # ss) = s @ '', '' @ join_comma (t # ss)"

definition str_int_list :: "int list \<Rightarrow> string" where
  "str_int_list ks = ''['' @ join_comma (map str_int ks) @ '']''"

text \<open>The lines from \<^verbatim>\<open>output_file = 'densities.pkl'\<close> to the end of \<^verbatim>\<open>main\<close>.\<close>

definition save_and_report ::
  "'atoms list \<Rightarrow> 'dm output_data \<Rightarrow> 'dm event list" where
  "save_and_report ds output =
     (let output_file = ''densities.pkl''
      in [Print (''Saving results to '' @ output_file @ ''...''),
          Pickle_dump output_file output,
          Print (''Done! Results saved to '' @ output_file),
          Print (''Summary: '' @ str_int (len (densities output)) @ ''/'' @ str_int (len ds)
                   @ '' successful computations'')]
         @ (if errors output \<noteq> []
            then [Print (''Errors encountered for indices: ''
                           @ str_int_list (keys (errors output)))]
            else []))"

definition main :: "('atoms, 'dm) env \<Rightarrow> 'dm event list \<times> (run_failure + 'dm output_data)" where
  "main env =
     (let ev0 = [Print ''Loading QM7 dataset...'']
      in case load_dataset env ''QM7'' ''data'' of
           Inl e \<Rightarrow> (ev0, Inl (Load_failed e))
         | Inr ds \<Rightarrow>
             (let ev1 = ev0 @ [Print (''Loaded '' @ str_int (len ds) @ '' molecules'')];
                  args_list = enumerate_from ds;
                  n_processes = 32;
                  ev2 = ev1 @ [Print (''Using '' @ str_int n_processes @ '' parallel processes''),
                               Print ''Computing SCF density matrices in parallel...'']
              in case Pool env n_processes of
                   Some e \<Rightarrow> (ev2, Inl (Pool_failed e))
                 | None \<Rightarrow>
                     (case pool_map (compute_density_safe env) args_list of
                        (evw, Inl e) \<Rightarrow> (ev2 @ [Pool_enter n_processes] @ evw, Inl (worker_failure e))
                      | (evw, Inr results) \<Rightarrow>
                          (let ev3 = ev2 @ [Pool_enter n_processes] @ evw @ [Pool_exit];
                               (dens, errs) = separate results [] [];
                               ev4 = ev3 @
                                 [Print (''Successfully computed '' @ str_int (len dens)
                                           @ '' density matrices''),
                                  Print (''Failed to compute '' @ str_int (len errs)
                                           @ '' density matrices'')];
                               output = make_output ds dens errs
                           in (ev4 @ save_and_report ds output, Inr output)))))"

subsection \<open>Observing a run\<close>

text \<open>The objects that a trace writes to files, in order.\<close>

fun written :: "'dm event list \<Rightarrow> (string \<times> 'dm output_data) list" where
  "written [] = []"
| "written (Pickle_dump file data # evs) = (file, data) # written evs"
| "written (Print s # evs) = written evs"
| "written (Pool_enter n # evs) = written evs"
| "written (Pool_exit # evs) = written evs"

section \<open>Concrete runs\<close>

subsection \<open>A dataset of five molecules, the third of them malformed\<close>

definition example_scf :: "nat \<Rightarrow> string \<Rightarrow> py_exception + int" where
  "example_scf atoms b =
     (if atoms = 2 then Inl (Exception (Inr ''malformed'')) else Inr (10 * int atoms))"

definition example_env :: "(nat, int) env" where
  "example_env = \<lparr> load_dataset = (\<lambda>name root. Inr [0, 1, 2, 3, 4]),
                    scf_density_matrix = example_scf,
                    Pool = (\<lambda>n. None) \<rparr>"

definition example_output :: "int output_data" where
  "example_output =
     \<lparr> densities = [(0, Some 0), (1, Some 10), (3, Some 30), (4, Some 40)],
       errors = [(2, ''Error computing density for molecule 2: malformed'')],
       metadata = \<lparr> basis = ''sto-3g'', total_molecules = 5, successful = 4, failed = 1 \<rparr> \<rparr>"

text \<open>The same dataset with a computation that succeeds on the third molecule too.\<close>

definition repaired_scf :: "nat \<Rightarrow> string \<Rightarrow> py_exception + int" where
  "repaired_scf atoms b = Inr (10 * int atoms)"

definition repaired_env :: "(nat, int) env" where
  "repaired_env = \<lparr> load_dataset = (\<lambda>name root. Inr [0, 1, 2, 3, 4]),
                     scf_density_matrix = repaired_scf,
                     Pool = (\<lambda>n. None) \<rparr>"

text \<open>An empty dataset.\<close>

definition empty_env :: "(nat, int) env" where
  "empty_env = \<lparr> load_dataset = (\<lambda>name root. Inr []),
                  scf_density_matrix = example_scf,
                  Pool = (\<lambda>n. None) \<rparr>"

subsection \<open>The same dataset, interrupted during the third molecule\<close>

text \<open>\<^verbatim>\<open>KeyboardInterrupt()\<close>, whose \<^verbatim>\<open>str\<close> is empty.\<close>

definition keyboard_interrupt :: py_exception where
  "keyboard_interrupt = Other_BaseException (Inr [])"

definition interrupted_scf :: "nat \<Rightarrow> string \<Rightarrow> py_exception + int" where
  "interrupted_scf atoms b = (if atoms = 2 then Inl keyboard_interrupt else Inr (10 * int atoms))"

definition interrupted_env :: "(nat, int) env" where
  "interrupted_env = \<lparr> load_dataset = (\<lambda>name root. Inr [0, 1, 2, 3, 4]),
                        scf_density_matrix = interrupted_scf,
                        Pool = (\<lambda>n. None) \<rparr>"

subsection \<open>The same dataset, with an exception that cannot be printed\<close>

text \<open>
  The third molecule raises an instance of \<^verbatim>\<open>Exception\<close> whose \<^verbatim>\<open>__str__\<close> returns no string,
  so that \<^verbatim>\<open>str(e)\<close> raises a \<^verbatim>\<open>TypeError\<close>.
\<close>

definition str_type_error :: py_exception where
  "str_type_error = Exception (Inr ''__str__ returned non-string (type NoneType)'')"

definition unprintable_scf :: "nat \<Rightarrow> string \<Rightarrow> py_exception + int" where
  "unprintable_scf atoms b =
     (if atoms = 2 then Inl (Exception (Inl str_type_error)) else Inr (10 * int atoms))"

definition unprintable_env :: "(nat, int) env" where
  "unprintable_env = \<lparr> load_dataset = (\<lambda>name root. Inr [0, 1, 2, 3, 4]),
                        scf_density_matrix = unprintable_scf,
                        Pool = (\<lambda>n. None) \<rparr>"

subsection \<open>Failing collaborators\<close>

definition missing_dataset_env :: "(nat, int) env" where
  "missing_dataset_env = \<lparr> load_dataset = (\<lambda>name root. Inl (Exception (Inr ''dataset not found''))),
                            scf_density_matrix = example_scf,
                            Pool = (\<lambda>n. None) \<rparr>"

definition no_pool_env :: "(nat, int) env" where
  "no_pool_env = \<lparr> load_dataset = (\<lambda>name root. Inr [0, 1, 2, 3, 4]),
                    scf_density_matrix = example_scf,
                    Pool = (\<lambda>n. Some (Exception (Inr ''[Errno 12] Cannot allocate memory''))) \<rparr>"

subsection \<open>Three items, of which the second fails\<close>

definition abc_scf :: "string \<Rightarrow> string \<Rightarrow> py_exception + string" where
  "abc_scf atoms b =
     (if atoms = ''B'' then Inl (Exception (Inr ''message'')) else Inr (''result'' @ atoms))"

definition abc_env :: "(string, string) env" where
  "abc_env = \<lparr> load_dataset = (\<lambda>name root. Inr [''A'', ''B'', ''C'']),
                scf_density_matrix = abc_scf,
                Pool = (\<lambda>n. None) \<rparr>"

section \<open>Properties\<close>

subsection \<open>Dictionaries and enumeration\<close>

lemma map_of_setitem: "map_of (setitem d k v) = (map_of d)(k \<mapsto> v)"
  by (induction d) (auto simp: fun_eq_iff)

lemma keys_setitem:
  "keys (setitem d k v) = (if k \<in> set (keys d) then keys d else keys d @ [k])"
  by (induction d) (auto simp: keys_def)

lemma distinct_keys_setitem: "distinct (keys d) \<Longrightarrow> distinct (keys (setitem d k v))"
  by (simp add: keys_setitem)

lemma dom_map_of_keys: "dom (map_of d) = set (keys d)"
  by (simp add: keys_def dom_map_of_conv_image_fst)

lemma keys_enumerate_from: "map fst (enumerate_from ds) = map int [0..<length ds]"
  by (simp add: enumerate_from_def)

lemma length_enumerate_from: "length (enumerate_from ds) = length ds"
  by (simp add: enumerate_from_def)

lemma nth_enumerate_from: "k < length ds \<Longrightarrow> enumerate_from ds ! k = (int k, ds ! k)"
  by (simp add: enumerate_from_def)

lemma str_nat_nonempty: "str_nat n \<noteq> []"
  by (subst str_nat.simps) simp

lemma error_message_nonempty: "error_message idx s \<noteq> []"
  by (simp add: error_message_def)

lemma compute_density_safe_cases:
  "snd (compute_density_safe env (idx, atoms)) = Inr t \<Longrightarrow>
     (\<exists>v. scf_density_matrix env atoms ''sto-3g'' = Inr v \<and> t = (idx, Some v, None)) \<or>
     (\<exists>s. scf_density_matrix env atoms ''sto-3g'' = Inl (Exception (Inr s))
          \<and> t = (idx, None, Some (error_message idx s)))"
  by (auto simp: compute_density_safe_def Let_def split: sum.splits py_exception.splits)

lemma compute_density_safe_prints:
  "set (fst (compute_density_safe env args)) \<subseteq> range Print"
  by (auto simp: compute_density_safe_def Let_def split: sum.splits py_exception.splits prod.splits)

lemma pool_map_Inr:
  "pool_map f xs = (evs, Inr ys) \<Longrightarrow> list_all2 (\<lambda>x y. snd (f x) = Inr y) xs ys"
  by (induction xs arbitrary: evs ys) (auto split: prod.splits sum.splits)

lemma pool_map_events:
  "(\<And>x. set (fst (f x)) \<subseteq> A) \<Longrightarrow> set (fst (pool_map f xs)) \<subseteq> A"
proof (induction xs)
  case Nil
  then show ?case by simp
next
  case (Cons x xs)
  have "set (fst (f x)) \<subseteq> A" by (rule Cons.prems)
  moreover have "set (fst (pool_map f xs)) \<subseteq> A" using Cons by blast
  ultimately show ?case
    by (auto split: prod.splits sum.splits)
qed

lemma pool_map_total:
  "(\<And>x. x \<in> set xs \<Longrightarrow> \<exists>y. snd (f x) = Inr y) \<Longrightarrow> \<exists>evs ys. pool_map f xs = (evs, Inr ys)"
proof (induction xs)
  case Nil
  then show ?case by simp
next
  case (Cons x xs)
  obtain y where y: "snd (f x) = Inr y" using Cons.prems by auto
  obtain evs ys where r: "pool_map f xs = (evs, Inr ys)" using Cons by auto
  show ?case using y r by (cases "f x") auto
qed

lemma pool_map_Inl:
  "pool_map f xs = (evs, Inl e) \<Longrightarrow> \<exists>x\<in>set xs. snd (f x) = Inl e"
  by (induction xs arbitrary: evs) (auto split: prod.splits sum.splits)

subsection \<open>The separation loop\<close>

lemma distinct_separate:
  "distinct (keys d) \<Longrightarrow> distinct (keys e) \<Longrightarrow>
     distinct (keys (fst (separate rs d e))) \<and> distinct (keys (snd (separate rs d e)))"
  by (induction rs d e rule: separate.induct)
     (auto simp: distinct_keys_setitem split: option.splits)

lemma map_of_separate_fst:
  "distinct (map fst rs) \<Longrightarrow>
     map_of (fst (separate rs d e)) k =
       (case map_of rs k of Some (dm, None) \<Rightarrow> Some dm | _ \<Rightarrow> map_of d k)"
proof (induction rs d e rule: separate.induct)
  case (1 d e)
  then show ?case by simp
next
  case (2 idx dm msg rs d e)
  have notin: "map_of rs idx = None"
    using "2.prems" by (simp add: map_of_eq_None_iff)
  show ?case
  proof (cases msg)
    case None
    then show ?thesis using 2 notin
      by (auto simp: map_of_setitem split: option.splits)
  next
    case (Some m)
    then show ?thesis using 2 notin
      by (auto split: option.splits)
  qed
qed

lemma map_of_separate_snd:
  "distinct (map fst rs) \<Longrightarrow>
     map_of (snd (separate rs d e)) k =
       (case map_of rs k of Some (dm, Some m) \<Rightarrow> Some m | _ \<Rightarrow> map_of e k)"
proof (induction rs d e rule: separate.induct)
  case (1 d e)
  then show ?case by simp
next
  case (2 idx dm msg rs d e)
  have notin: "map_of rs idx = None"
    using "2.prems" by (simp add: map_of_eq_None_iff)
  show ?case
  proof (cases msg)
    case None
    then show ?thesis using 2 notin
      by (auto split: option.splits)
  next
    case (Some m)
    then show ?thesis using 2 notin
      by (auto simp: map_of_setitem split: option.splits)
  qed
qed

subsection \<open>The results of the pool\<close>

lemma results_nth:
  assumes "pool_map (compute_density_safe env) (enumerate_from ds) = (evw, Inr rs)"
  shows "length rs = length ds"
    and "k < length ds \<Longrightarrow> snd (compute_density_safe env (int k, ds ! k)) = Inr (rs ! k)"
proof -
  have a: "list_all2 (\<lambda>x y. snd (compute_density_safe env x) = Inr y) (enumerate_from ds) rs"
    using assms by (rule pool_map_Inr)
  then show l: "length rs = length ds"
    by (simp add: list_all2_lengthD [symmetric] length_enumerate_from)
  show "snd (compute_density_safe env (int k, ds ! k)) = Inr (rs ! k)" if "k < length ds"
    using list_all2_nthD [OF a, of k] that
    by (simp add: length_enumerate_from nth_enumerate_from)
qed

lemma results_fst_nth:
  assumes "pool_map (compute_density_safe env) (enumerate_from ds) = (evw, Inr rs)"
    and "k < length ds"
  shows "fst (rs ! k) = int k"
  using compute_density_safe_cases [OF results_nth(2) [OF assms]] by auto

lemma results_keys:
  assumes "pool_map (compute_density_safe env) (enumerate_from ds) = (evw, Inr rs)"
  shows "map fst rs = map int [0..<length ds]"
  by (rule nth_equalityI)
     (simp_all add: results_nth(1) [OF assms] results_fst_nth [OF assms])

lemma results_distinct:
  assumes "pool_map (compute_density_safe env) (enumerate_from ds) = (evw, Inr rs)"
  shows "distinct (map fst rs)"
  by (simp add: results_keys [OF assms] distinct_map inj_on_def)

lemma map_of_results:
  assumes "pool_map (compute_density_safe env) (enumerate_from ds) = (evw, Inr rs)"
    and "k < length ds"
  shows "map_of rs (int k) = Some (snd (rs ! k))"
proof -
  have "rs ! k \<in> set rs"
    using assms by (simp add: results_nth(1) [OF assms(1)])
  then have "(int k, snd (rs ! k)) \<in> set rs"
    using results_fst_nth [OF assms] by (metis prod.collapse)
  then show ?thesis
    using results_distinct [OF assms(1)] by simp
qed

lemma map_of_results_outside:
  assumes "pool_map (compute_density_safe env) (enumerate_from ds) = (evw, Inr rs)"
    and "i \<notin> int ` {0..<length ds}"
  shows "map_of rs i = None"
proof -
  have "fst ` set rs = int ` {0..<length ds}"
    using results_keys [OF assms(1)] by (metis set_map set_upt)
  then show ?thesis using assms(2) by (simp add: map_of_eq_None_iff)
qed

lemma main_success:
  assumes "snd (main env) = Inr out"
  obtains ds evw rs where
    "load_dataset env ''QM7'' ''data'' = Inr ds"
    "Pool env 32 = None"
    "pool_map (compute_density_safe env) (enumerate_from ds) = (evw, Inr rs)"
    "out = make_output ds (fst (separate rs [] [])) (snd (separate rs [] []))"
    "fst (main env) =
       [Print ''Loading QM7 dataset...'',
        Print (''Loaded '' @ str_int (len ds) @ '' molecules''),
        Print (''Using '' @ str_int 32 @ '' parallel processes''),
        Print ''Computing SCF density matrices in parallel...'',
        Pool_enter 32] @ evw @
       [Pool_exit,
        Print (''Successfully computed '' @ str_int (len (densities out)) @ '' density matrices''),
        Print (''Failed to compute '' @ str_int (len (errors out)) @ '' density matrices'')]
       @ save_and_report ds out"
  using assms
  by (auto simp: main_def Let_def make_output_def split: sum.splits option.splits prod.splits)

lemma keys_separate:
  assumes "distinct (map fst rs)"
  shows "set (keys (fst (separate rs [] []))) = {k. \<exists>dm. map_of rs k = Some (dm, None)}"
    and "set (keys (snd (separate rs [] []))) = {k. \<exists>dm m. map_of rs k = Some (dm, Some m)}"
proof -
  have "k \<in> dom (map_of (fst (separate rs [] []))) \<longleftrightarrow> (\<exists>dm. map_of rs k = Some (dm, None))" for k
    unfolding dom_def by (auto simp: map_of_separate_fst [OF assms] split: option.splits)
  then show "set (keys (fst (separate rs [] []))) = {k. \<exists>dm. map_of rs k = Some (dm, None)}"
    unfolding dom_map_of_keys by blast
  have "k \<in> dom (map_of (snd (separate rs [] []))) \<longleftrightarrow> (\<exists>dm m. map_of rs k = Some (dm, Some m))" for k
    unfolding dom_def by (auto simp: map_of_separate_snd [OF assms] split: option.splits)
  then show "set (keys (snd (separate rs [] []))) = {k. \<exists>dm m. map_of rs k = Some (dm, Some m)}"
    unfolding dom_map_of_keys by blast
qed

lemma separate_partition:
  assumes "distinct (map fst rs)"
  shows "set (keys (fst (separate rs [] []))) \<inter> set (keys (snd (separate rs [] []))) = {}"
    and "set (keys (fst (separate rs [] []))) \<union> set (keys (snd (separate rs [] []))) = set (map fst rs)"
proof -
  show "set (keys (fst (separate rs [] []))) \<inter> set (keys (snd (separate rs [] []))) = {}"
    unfolding keys_separate [OF assms] by auto
  have "k \<in> set (map fst rs) \<longleftrightarrow>
          (\<exists>dm. map_of rs k = Some (dm, None)) \<or> (\<exists>dm m. map_of rs k = Some (dm, Some m))" for k
  proof (cases "map_of rs k")
    case None
    then show ?thesis using map_of_eq_None_iff [of rs k] by auto
  next
    case (Some p)
    then have "k \<in> fst ` set rs" by (metis map_of_eq_None_iff option.distinct(1))
    with Some show ?thesis by (cases p; cases "snd p") auto
  qed
  then show "set (keys (fst (separate rs [] []))) \<union> set (keys (snd (separate rs [] []))) = set (map fst rs)"
    unfolding keys_separate [OF assms] by blast
qed

lemma separate_lengths:
  assumes "distinct (map fst rs)"
  shows "length (fst (separate rs [] [])) + length (snd (separate rs [] [])) = length rs"
proof -
  let ?D = "fst (separate rs [] [])" and ?E = "snd (separate rs [] [])"
  have d: "distinct (keys ?D)" "distinct (keys ?E)"
    using distinct_separate [of "[]" "[]" rs] by (simp_all add: keys_def)
  have "length ?D + length ?E = card (set (keys ?D)) + card (set (keys ?E))"
    using distinct_card [OF d(1)] distinct_card [OF d(2)] by (simp add: keys_def)
  also have "\<dots> = card (set (keys ?D) \<union> set (keys ?E))"
    using separate_partition(1) [OF assms] by (simp add: card_Un_disjoint)
  also have "\<dots> = length rs"
    using assms by (simp only: separate_partition(2) [OF assms] distinct_card length_map)
  finally show ?thesis .
qed

subsection \<open>The trace of a run\<close>

lemma written_append: "written (xs @ ys) = written xs @ written ys"
  by (induction xs rule: written.induct) simp_all

lemma written_prints: "set evs \<subseteq> range Print \<Longrightarrow> written evs = []"
  by (induction evs rule: written.induct) auto

lemma pool_events_written: "written (fst (pool_map (compute_density_safe env) xs)) = []"
  by (rule written_prints, rule pool_map_events, rule compute_density_safe_prints)

lemma written_main_failure:
  assumes "snd (main env) = Inl failure"
  shows "written (fst (main env)) = []"
proof (cases "load_dataset env ''QM7'' ''data''")
  case (Inl e)
  then show ?thesis by (simp add: main_def)
next
  case (Inr ds)
  show ?thesis
  proof (cases "Pool env 32")
    case (Some e)
    with Inr show ?thesis by (simp add: main_def Let_def)
  next
    case None
    obtain evw r where p: "pool_map (compute_density_safe env) (enumerate_from ds) = (evw, r)"
      by (cases "pool_map (compute_density_safe env) (enumerate_from ds)")
    have w: "written evw = []"
      using pool_events_written [of env "enumerate_from ds"] p by simp
    show ?thesis
    proof (cases r)
      case (Inl e)
      with Inr None p w show ?thesis by (simp add: main_def Let_def written_append)
    next
      case r: (Inr rs)
      with Inr None p assms show ?thesis by (simp add: main_def Let_def split: prod.splits)
    qed
  qed
qed

lemma main_trace_success:
  assumes "snd (main env) = Inr out"
  shows "\<exists>pre post. fst (main env) = pre @ Pickle_dump ''densities.pkl'' out # post
           \<and> written pre = [] \<and> written post = []
           \<and> Pool_enter 32 \<in> set pre \<and> Pool_exit \<in> set pre \<and> set post \<subseteq> range Print"
proof -
  from assms obtain ds evw rs where
    p: "pool_map (compute_density_safe env) (enumerate_from ds) = (evw, Inr rs)"
    and t: "fst (main env) =
       [Print ''Loading QM7 dataset...'',
        Print (''Loaded '' @ str_int (len ds) @ '' molecules''),
        Print (''Using '' @ str_int 32 @ '' parallel processes''),
        Print ''Computing SCF density matrices in parallel...'',
        Pool_enter 32] @ evw @
       [Pool_exit,
        Print (''Successfully computed '' @ str_int (len (densities out)) @ '' density matrices''),
        Print (''Failed to compute '' @ str_int (len (errors out)) @ '' density matrices'')]
       @ save_and_report ds out"
    by (rule main_success)
  have w: "written evw = []"
    using pool_events_written [of env "enumerate_from ds"] p by simp
  let ?pre = "[Print ''Loading QM7 dataset...'',
        Print (''Loaded '' @ str_int (len ds) @ '' molecules''),
        Print (''Using '' @ str_int 32 @ '' parallel processes''),
        Print ''Computing SCF density matrices in parallel...'',
        Pool_enter 32] @ evw @
       [Pool_exit,
        Print (''Successfully computed '' @ str_int (len (densities out)) @ '' density matrices''),
        Print (''Failed to compute '' @ str_int (len (errors out)) @ '' density matrices''),
        Print (''Saving results to '' @ ''densities.pkl'' @ ''...'')]"
  let ?post = "[Print (''Done! Results saved to '' @ ''densities.pkl''),
          Print (''Summary: '' @ str_int (len (densities out)) @ ''/'' @ str_int (len ds)
                   @ '' successful computations'')]
         @ (if errors out \<noteq> []
            then [Print (''Errors encountered for indices: ''
                           @ str_int_list (keys (errors out)))]
            else [])"
  have "fst (main env) = ?pre @ Pickle_dump ''densities.pkl'' out # ?post"
    unfolding t by (simp add: save_and_report_def Let_def)
  moreover have "written ?pre = []" using w by (simp add: written_append)
  moreover have "written ?post = []" by simp
  moreover have "Pool_enter 32 \<in> set ?pre" "Pool_exit \<in> set ?pre" by simp_all
  moreover have "set ?post \<subseteq> range Print" by auto
  ultimately show ?thesis by blast
qed

lemma written_main_success:
  assumes "snd (main env) = Inr out"
  shows "written (fst (main env)) = [(''densities.pkl'', out)]"
proof -
  obtain pre post where "fst (main env) = pre @ Pickle_dump ''densities.pkl'' out # post"
    "written pre = []" "written post = []"
    using main_trace_success [OF assms] by blast
  then show ?thesis by (simp add: written_append)
qed

subsection \<open>The outcome of each item\<close>

lemma run_results:
  assumes "snd (main env) = Inr out"
    and "load_dataset env ''QM7'' ''data'' = Inr ds"
  obtains evw rs where
    "pool_map (compute_density_safe env) (enumerate_from ds) = (evw, Inr rs)"
    "densities out = fst (separate rs [] [])"
    "errors out = snd (separate rs [] [])"
    "metadata out = \<lparr> basis = ''sto-3g'', total_molecules = len ds,
                       successful = len (densities out), failed = len (errors out) \<rparr>"
proof -
  from assms(1) obtain ds' evw rs where
    l: "load_dataset env ''QM7'' ''data'' = Inr ds'"
    and p: "pool_map (compute_density_safe env) (enumerate_from ds') = (evw, Inr rs)"
    and o: "out = make_output ds' (fst (separate rs [] [])) (snd (separate rs [] []))"
    by (rule main_success)
  have "ds' = ds" using l assms(2) by simp
  with p o that show thesis by (simp add: make_output_def)
qed

lemma run_outcome_success:
  assumes "snd (main env) = Inr out"
    and "load_dataset env ''QM7'' ''data'' = Inr ds"
    and "k < length ds"
    and "scf_density_matrix env (ds ! k) ''sto-3g'' = Inr v"
  shows "map_of (densities out) (int k) = Some (Some v)"
    and "map_of (errors out) (int k) = None"
proof -
  from assms(1,2) obtain evw rs where
    p: "pool_map (compute_density_safe env) (enumerate_from ds) = (evw, Inr rs)"
    and D: "densities out = fst (separate rs [] [])"
    and E: "errors out = snd (separate rs [] [])"
    by (rule run_results)
  have "rs ! k = (int k, Some v, None)"
    using compute_density_safe_cases [OF results_nth(2) [OF p assms(3)]] assms(4) by auto
  then have m: "map_of rs (int k) = Some (Some v, None)"
    using map_of_results [OF p assms(3)] by simp
  show "map_of (densities out) (int k) = Some (Some v)"
    by (simp add: D map_of_separate_fst [OF results_distinct [OF p]] m)
  show "map_of (errors out) (int k) = None"
    by (simp add: E map_of_separate_snd [OF results_distinct [OF p]] m)
qed

lemma run_outcome_failure:
  assumes "snd (main env) = Inr out"
    and "load_dataset env ''QM7'' ''data'' = Inr ds"
    and "k < length ds"
    and "scf_density_matrix env (ds ! k) ''sto-3g'' = Inl e"
  shows "\<exists>s. e = Exception (Inr s)
             \<and> map_of (errors out) (int k) = Some (error_message (int k) s)"
    and "map_of (densities out) (int k) = None"
proof -
  from assms(1,2) obtain evw rs where
    p: "pool_map (compute_density_safe env) (enumerate_from ds) = (evw, Inr rs)"
    and D: "densities out = fst (separate rs [] [])"
    and E: "errors out = snd (separate rs [] [])"
    by (rule run_results)
  obtain s where s: "e = Exception (Inr s)"
      "rs ! k = (int k, None, Some (error_message (int k) s))"
    using compute_density_safe_cases [OF results_nth(2) [OF p assms(3)]] assms(4) by auto
  then have m: "map_of rs (int k) = Some (None, Some (error_message (int k) s))"
    using map_of_results [OF p assms(3)] by simp
  show "\<exists>s. e = Exception (Inr s)
             \<and> map_of (errors out) (int k) = Some (error_message (int k) s)"
    using s(1) by (simp add: E map_of_separate_snd [OF results_distinct [OF p]] m)
  show "map_of (densities out) (int k) = None"
    by (simp add: D map_of_separate_fst [OF results_distinct [OF p]] m)
qed

lemma compute_density_safe_returns:
  assumes "\<And>e. scf_density_matrix env atoms ''sto-3g'' = Inl e \<Longrightarrow> \<exists>s. e = Exception (Inr s)"
  shows "\<exists>t. snd (compute_density_safe env (idx, atoms)) = Inr t"
proof (cases "scf_density_matrix env atoms ''sto-3g''")
  case (Inl e)
  then obtain s where "e = Exception (Inr s)" using assms by blast
  with Inl show ?thesis by (simp add: compute_density_safe_def Let_def)
next
  case (Inr v)
  then show ?thesis by (simp add: compute_density_safe_def)
qed

lemma main_completes:
  assumes "load_dataset env ''QM7'' ''data'' = Inr ds"
    and "Pool env 32 = None"
    and "\<And>a e. a \<in> set ds \<Longrightarrow> scf_density_matrix env a ''sto-3g'' = Inl e
           \<Longrightarrow> \<exists>s. e = Exception (Inr s)"
  shows "\<exists>out. snd (main env) = Inr out"
proof -
  have "\<exists>t. snd (compute_density_safe env x) = Inr t" if "x \<in> set (enumerate_from ds)" for x
  proof -
    obtain idx a where x: "x = (idx, a)" by (cases x)
    have "a \<in> set ds" using that x by (auto simp: enumerate_from_def dest: set_zip_rightD)
    then show ?thesis unfolding x using assms(3) by (intro compute_density_safe_returns) blast
  qed
  then obtain evw rs where "pool_map (compute_density_safe env) (enumerate_from ds) = (evw, Inr rs)"
    using pool_map_total [of "enumerate_from ds" "compute_density_safe env"] by blast
  then show ?thesis
    using assms(1,2) by (simp add: main_def Let_def split: prod.splits)
qed

text \<open>
  A run completes only if every exception that an item raises is an instance of
  \<^verbatim>\<open>Exception\<close> whose \<^verbatim>\<open>str\<close> returns.
\<close>

lemma main_success_exceptions:
  assumes "snd (main env) = Inr out"
    and "load_dataset env ''QM7'' ''data'' = Inr ds"
    and "k < length ds"
    and "scf_density_matrix env (ds ! k) ''sto-3g'' = Inl e"
  shows "\<exists>s. e = Exception (Inr s)"
  using run_outcome_failure(1) [OF assms] by blast

section \<open>The claims\<close>

subsection \<open>C1\<close>

text \<open>
  C1. In every run that writes its output, over a dataset of \<open>N\<close> items, the keys of
  \<open>densities\<close> and the keys of \<open>errors\<close> are disjoint and together are exactly the
  indices \<open>0, \<dots>, N - 1\<close>; no key occurs twice in either dictionary, so every index
  has exactly one outcome.
\<close>

theorem densities_errors_partition:
  assumes "snd (main env) = Inr out"
    and "load_dataset env ''QM7'' ''data'' = Inr ds"
  shows "set (keys (densities out)) \<inter> set (keys (errors out)) = {}
       \<and> set (keys (densities out)) \<union> set (keys (errors out)) = {0..<len ds}
       \<and> distinct (keys (densities out)) \<and> distinct (keys (errors out))"
proof -
  from assms(1) obtain ds' evw rs where
    l: "load_dataset env ''QM7'' ''data'' = Inr ds'"
    and p: "pool_map (compute_density_safe env) (enumerate_from ds') = (evw, Inr rs)"
    and o: "out = make_output ds' (fst (separate rs [] [])) (snd (separate rs [] []))"
    by (rule main_success)
  have ds: "ds' = ds" using l assms(2) by simp
  have dist: "distinct (map fst rs)" using p by (rule results_distinct)
  have idx: "set (map fst rs) = {0..<len ds}"
    by (simp add: results_keys [OF p] ds len_def image_int_atLeastLessThan)
  have D: "densities out = fst (separate rs [] [])" and E: "errors out = snd (separate rs [] [])"
    by (simp_all add: o make_output_def)
  show ?thesis
    unfolding D E
    using separate_partition [OF dist] idx distinct_separate [of "[]" "[]" rs]
    by (simp add: keys_def)
qed

text \<open>The theorem at a concrete run.\<close>

theorem densities_errors_partition_witness:
  "snd (main example_env)
     = Inr \<lparr> densities = [(0, Some 0), (1, Some 10), (3, Some 30), (4, Some 40)],
             errors = [(2, ''Error computing density for molecule 2: malformed'')],
             metadata = \<lparr> basis = ''sto-3g'', total_molecules = 5, successful = 4, failed = 1 \<rparr> \<rparr>
   \<and> load_dataset example_env ''QM7'' ''data'' = Inr [0, 1, 2, 3, 4]
   \<and> set [0, 1, 3, 4] \<inter> set [2] = ({} :: int set)
   \<and> set [0, 1, 3, 4] \<union> set [2] = {0..<len [0, 1, 2, 3, 4 :: nat]}"
proof -
  have h1: "snd (main example_env)
     = Inr \<lparr> densities = [(0, Some 0), (1, Some 10), (3, Some 30), (4, Some 40)],
             errors = [(2, ''Error computing density for molecule 2: malformed'')],
             metadata = \<lparr> basis = ''sto-3g'', total_molecules = 5, successful = 4, failed = 1 \<rparr> \<rparr>"
    by code_simp
  have h2: "load_dataset example_env ''QM7'' ''data'' = Inr [0, 1, 2, 3, 4]"
    by (simp add: example_env_def)
  show ?thesis
    using h1 h2 densities_errors_partition [OF h1 h2] by (simp add: keys_def)
qed


subsection \<open>C2\<close>

text \<open>
  C2, as stated, fails. In the interrupted run the computation of the item at index 2
  raises, the pool starts and the dataset loads, and yet there is no error map with an
  entry for index 2: the worker dies, the run never returns and nothing is written, so
  the outcomes of the other four items are lost as well.
\<close>

theorem interrupted_item_not_in_errors:
  "load_dataset interrupted_env ''QM7'' ''data'' = Inr [0, 1, 2, 3, 4]
   \<and> Pool interrupted_env 32 = None
   \<and> scf_density_matrix interrupted_env ([0, 1, 2, 3, 4] ! 2) ''sto-3g'' = Inl keyboard_interrupt
   \<and> snd (main interrupted_env) = Inl (Worker_died keyboard_interrupt)
   \<and> written (fst (main interrupted_env)) = []"
proof -
  have "load_dataset interrupted_env ''QM7'' ''data'' = Inr [0, 1, 2, 3, 4]"
    and "Pool interrupted_env 32 = None"
    and "scf_density_matrix interrupted_env ([0, 1, 2, 3, 4] ! 2) ''sto-3g'' = Inl keyboard_interrupt"
    by (simp_all add: interrupted_env_def interrupted_scf_def)
  moreover have "snd (main interrupted_env) = Inl (Worker_died keyboard_interrupt)"
    by code_simp
  moreover have "written (fst (main interrupted_env)) = []"
    by code_simp
  ultimately show ?thesis by simp
qed

text \<open>
  What holds of a run that has written its output: the raising item is in \<open>errors\<close> and
  not in \<open>densities\<close>, and a run that differs only in that this item does not raise
  writes an output with the same entries at every other index.
\<close>

lemma raising_item_outcomes:
  assumes "snd (main env) = Inr out"
    and "load_dataset env ''QM7'' ''data'' = Inr ds"
    and "k < length ds"
    and "scf_density_matrix env (ds ! k) ''sto-3g'' = Inl e"
  shows "(\<exists>msg. map_of (errors out) (int k) = Some msg \<and> msg \<noteq> [])
       \<and> int k \<notin> set (keys (densities out))
       \<and> (load_dataset env' = load_dataset env \<and> Pool env' = Pool env
            \<and> scf_density_matrix env' (ds ! k) ''sto-3g'' = Inr v
            \<and> (\<forall>j<length ds. j \<noteq> k \<longrightarrow>
                  scf_density_matrix env' (ds ! j) ''sto-3g''
                    = scf_density_matrix env (ds ! j) ''sto-3g'')
          \<longrightarrow> (\<exists>out'. snd (main env') = Inr out'
                 \<and> (\<forall>j<length ds. j \<noteq> k \<longrightarrow>
                       map_of (densities out') (int j) = map_of (densities out) (int j)
                     \<and> map_of (errors out') (int j) = map_of (errors out) (int j))))"
proof (intro conjI impI)
  show "\<exists>msg. map_of (errors out) (int k) = Some msg \<and> msg \<noteq> []"
    using run_outcome_failure(1) [OF assms] error_message_nonempty by blast
  show "int k \<notin> set (keys (densities out))"
    using run_outcome_failure(2) [OF assms] dom_map_of_keys [of "densities out"]
    by (metis domIff)
next
  assume h: "load_dataset env' = load_dataset env \<and> Pool env' = Pool env
            \<and> scf_density_matrix env' (ds ! k) ''sto-3g'' = Inr v
            \<and> (\<forall>j<length ds. j \<noteq> k \<longrightarrow>
                  scf_density_matrix env' (ds ! j) ''sto-3g''
                    = scf_density_matrix env (ds ! j) ''sto-3g'')"
  then have l': "load_dataset env' ''QM7'' ''data'' = Inr ds"
    using assms(2) by simp
  from assms(1) have "Pool env 32 = None"
    by (rule main_success)
  with h have p': "Pool env' 32 = None" by simp
  have "\<exists>s. x = Exception (Inr s)"
    if "a \<in> set ds" "scf_density_matrix env' a ''sto-3g'' = Inl x" for a x
  proof -
    from that(1) obtain j where j: "j < length ds" "a = ds ! j"
      by (auto simp: in_set_conv_nth)
    have "j \<noteq> k" using h j that(2) by auto
    then have "scf_density_matrix env (ds ! j) ''sto-3g'' = Inl x"
      using h j that(2) by simp
    then show ?thesis
      using main_success_exceptions [OF assms(1,2) j(1)] by blast
  qed
  with l' p' obtain out' where o': "snd (main env') = Inr out'"
    using main_completes [of env' ds] by blast
  have "map_of (densities out') (int j) = map_of (densities out) (int j)
      \<and> map_of (errors out') (int j) = map_of (errors out) (int j)"
    if j: "j < length ds" "j \<noteq> k" for j
  proof -
    have same: "scf_density_matrix env' (ds ! j) ''sto-3g''
                  = scf_density_matrix env (ds ! j) ''sto-3g''"
      using h j by blast
    show ?thesis
    proof (cases "scf_density_matrix env (ds ! j) ''sto-3g''")
      case (Inl x)
      obtain s where s: "x = Exception (Inr s)"
          "map_of (errors out) (int j) = Some (error_message (int j) s)"
        using run_outcome_failure(1) [OF assms(1,2) j(1) Inl] by blast
      obtain s' where s': "x = Exception (Inr s')"
          "map_of (errors out') (int j) = Some (error_message (int j) s')"
        using run_outcome_failure(1) [OF o' l' j(1)] same Inl by auto
      show ?thesis
        using s s' run_outcome_failure(2) [OF assms(1,2) j(1) Inl]
          run_outcome_failure(2) [OF o' l' j(1), of x] same Inl by simp
    next
      case (Inr y)
      show ?thesis
        using run_outcome_success [OF assms(1,2) j(1) Inr]
          run_outcome_success [OF o' l' j(1), of y] same Inr by simp
    qed
  qed
  with o' show "\<exists>out'. snd (main env') = Inr out'
                 \<and> (\<forall>j<length ds. j \<noteq> k \<longrightarrow>
                       map_of (densities out') (int j) = map_of (densities out) (int j)
                     \<and> map_of (errors out') (int j) = map_of (errors out) (int j))"
    by blast
qed

text \<open>
  C2, amended. Let the dataset load and the pool start, and let every exception that the
  computation raises on an item be an instance of \<^verbatim>\<open>Exception\<close> whose \<^verbatim>\<open>str\<close> returns. Then
  the run writes its output, and for any item whose computation raises, the item's index
  is in \<open>errors\<close> with a non-empty message and not in \<open>densities\<close>; and a run \<open>env'\<close> that
  differs only in that this item does not raise writes an output in which every other
  index has the same entry in \<open>densities\<close> and in \<open>errors\<close>.
\<close>

theorem raising_item_recorded_in_errors:
  assumes "load_dataset env ''QM7'' ''data'' = Inr ds"
    and "Pool env 32 = None"
    and "\<forall>a\<in>set ds. \<forall>x. scf_density_matrix env a ''sto-3g'' = Inl x
           \<longrightarrow> (\<exists>s. x = Exception (Inr s))"
    and "k < length ds"
    and "scf_density_matrix env (ds ! k) ''sto-3g'' = Inl e"
  shows "\<exists>out. snd (main env) = Inr out
       \<and> written (fst (main env)) = [(''densities.pkl'', out)]
       \<and> (\<exists>msg. map_of (errors out) (int k) = Some msg \<and> msg \<noteq> [])
       \<and> int k \<notin> set (keys (densities out))
       \<and> (load_dataset env' = load_dataset env \<and> Pool env' = Pool env
            \<and> scf_density_matrix env' (ds ! k) ''sto-3g'' = Inr v
            \<and> (\<forall>j<length ds. j \<noteq> k \<longrightarrow>
                  scf_density_matrix env' (ds ! j) ''sto-3g''
                    = scf_density_matrix env (ds ! j) ''sto-3g'')
          \<longrightarrow> (\<exists>out'. snd (main env') = Inr out'
                 \<and> (\<forall>j<length ds. j \<noteq> k \<longrightarrow>
                       map_of (densities out') (int j) = map_of (densities out) (int j)
                     \<and> map_of (errors out') (int j) = map_of (errors out) (int j))))"
proof -
  obtain out where o: "snd (main env) = Inr out"
    using main_completes [OF assms(1,2)] assms(3) by blast
  show ?thesis
    using o written_main_success [OF o] raising_item_outcomes [OF o assms(1,4,5), of env' v]
    by blast
qed

text \<open>The theorem at a concrete run.\<close>

theorem raising_item_recorded_in_errors_witness:
  "load_dataset example_env ''QM7'' ''data'' = Inr [0, 1, 2, 3, 4]
   \<and> Pool example_env 32 = None
   \<and> (2::nat) < length [0, 1, 2, 3, 4 :: nat]
   \<and> scf_density_matrix example_env ([0, 1, 2, 3, 4] ! 2) ''sto-3g''
        = Inl (Exception (Inr ''malformed''))
   \<and> load_dataset repaired_env = load_dataset example_env
   \<and> Pool repaired_env = Pool example_env
   \<and> scf_density_matrix repaired_env ([0, 1, 2, 3, 4] ! 2) ''sto-3g'' = Inr 20
   \<and> (\<exists>out. snd (main example_env) = Inr out
         \<and> written (fst (main example_env)) = [(''densities.pkl'', out)]
         \<and> (\<exists>msg. map_of (errors out) (int 2) = Some msg \<and> msg \<noteq> [])
         \<and> int 2 \<notin> set (keys (densities out))
         \<and> (\<exists>out'. snd (main repaired_env) = Inr out'
               \<and> (\<forall>j<length [0, 1, 2, 3, 4 :: nat]. j \<noteq> 2 \<longrightarrow>
                     map_of (densities out') (int j) = map_of (densities out) (int j)
                   \<and> map_of (errors out') (int j) = map_of (errors out) (int j))))"
proof -
  have h1: "load_dataset example_env ''QM7'' ''data'' = Inr [0, 1, 2, 3, 4]"
    by (simp add: example_env_def)
  have h2: "Pool example_env 32 = None"
    by (simp add: example_env_def)
  have h3: "\<forall>a\<in>set [0, 1, 2, 3, 4]. \<forall>x. scf_density_matrix example_env a ''sto-3g'' = Inl x
              \<longrightarrow> (\<exists>s. x = Exception (Inr s))"
    by (simp add: example_env_def example_scf_def)
  have h4: "(2::nat) < length [0, 1, 2, 3, 4 :: nat]"
    by simp
  have h5: "scf_density_matrix example_env ([0, 1, 2, 3, 4] ! 2) ''sto-3g''
              = Inl (Exception (Inr ''malformed''))"
    by (simp add: example_env_def example_scf_def)
  have h6: "load_dataset repaired_env = load_dataset example_env"
    by (simp add: repaired_env_def example_env_def)
  have h7: "Pool repaired_env = Pool example_env"
    by (simp add: repaired_env_def example_env_def)
  have h8: "scf_density_matrix repaired_env ([0, 1, 2, 3, 4] ! 2) ''sto-3g'' = Inr 20"
    by (simp add: repaired_env_def repaired_scf_def)
  have h9: "\<forall>j<length [0, 1, 2, 3, 4 :: nat]. j \<noteq> 2 \<longrightarrow>
              scf_density_matrix repaired_env ([0, 1, 2, 3, 4] ! j) ''sto-3g''
                = scf_density_matrix example_env ([0, 1, 2, 3, 4] ! j) ''sto-3g''"
    by (auto simp: repaired_env_def repaired_scf_def example_env_def example_scf_def
        nth_Cons' less_Suc_eq eval_nat_numeral)
  show ?thesis
    using h1 h2 h4 h5 h6 h7 h8 h9
      raising_item_recorded_in_errors [OF h1 h2 h3 h4 h5, of repaired_env 20]
    by blast
qed

subsection \<open>C3\<close>

text \<open>
  C3, as stated, fails, in two ways. \<^verbatim>\<open>except Exception\<close> does not catch a
  \<^verbatim>\<open>KeyboardInterrupt\<close>: the wrapper returns no failure record for it, the worker dies, and
  the run never returns and writes nothing. And an instance of \<^verbatim>\<open>Exception\<close> whose \<^verbatim>\<open>str\<close>
  raises is caught, but the handler itself raises when it builds the message: the
  \<^verbatim>\<open>TypeError\<close> leaves the wrapper, reaches \<^verbatim>\<open>main\<close> through \<^verbatim>\<open>pool.map\<close>, and the run ends
  without writing anything.
\<close>

theorem base_exception_not_caught:
  "scf_density_matrix interrupted_env 2 ''sto-3g'' = Inl keyboard_interrupt
   \<and> compute_density_safe interrupted_env (2, 2) = ([], Inl keyboard_interrupt)
   \<and> snd (main interrupted_env) = Inl (Worker_died keyboard_interrupt)
   \<and> written (fst (main interrupted_env)) = []
   \<and> scf_density_matrix unprintable_env 2 ''sto-3g'' = Inl (Exception (Inl str_type_error))
   \<and> compute_density_safe unprintable_env (2, 2) = ([], Inl str_type_error)
   \<and> snd (main unprintable_env) = Inl (Worker_raised str_type_error)
   \<and> written (fst (main unprintable_env)) = []"
proof -
  have "scf_density_matrix interrupted_env 2 ''sto-3g'' = Inl keyboard_interrupt"
    by (simp add: interrupted_env_def interrupted_scf_def)
  moreover have "compute_density_safe interrupted_env (2, 2) = ([], Inl keyboard_interrupt)"
    by code_simp
  moreover have "snd (main interrupted_env) = Inl (Worker_died keyboard_interrupt)"
    by code_simp
  moreover have "written (fst (main interrupted_env)) = []"
    by code_simp
  moreover have "scf_density_matrix unprintable_env 2 ''sto-3g''
                   = Inl (Exception (Inl str_type_error))"
    by (simp add: unprintable_env_def unprintable_scf_def)
  moreover have "compute_density_safe unprintable_env (2, 2) = ([], Inl str_type_error)"
    by code_simp
  moreover have "snd (main unprintable_env) = Inl (Worker_raised str_type_error)"
    by code_simp
  moreover have "written (fst (main unprintable_env)) = []"
    by code_simp
  ultimately show ?thesis by simp
qed

text \<open>
  C3, amended. An instance of \<^verbatim>\<open>Exception\<close> whose \<^verbatim>\<open>str\<close> returns, raised by the computation,
  is caught by the wrapper and becomes the record \<open>(idx, None, message)\<close> with a non-empty
  message that is also printed. When the dataset loads, the pool starts and every
  exception that an item raises is of that kind, nothing reaches \<^verbatim>\<open>main\<close>: the run
  completes, with every raising item in \<open>errors\<close> and every other item in \<open>densities\<close>.
\<close>

theorem exception_becomes_failure_record:
  "(scf_density_matrix env atoms ''sto-3g'' = Inl (Exception (Inr s)) \<longrightarrow>
      compute_density_safe env (idx, atoms)
        = ([Print (error_message idx s)], Inr (idx, None, Some (error_message idx s)))
      \<and> error_message idx s \<noteq> [])
   \<and> (load_dataset env ''QM7'' ''data'' = Inr ds \<and> Pool env 32 = None
        \<and> (\<forall>a\<in>set ds. \<forall>x. scf_density_matrix env a ''sto-3g'' = Inl x
              \<longrightarrow> (\<exists>m. x = Exception (Inr m)))
      \<longrightarrow> (\<exists>out. snd (main env) = Inr out
             \<and> written (fst (main env)) = [(''densities.pkl'', out)]
             \<and> (\<forall>k<length ds.
                  (\<forall>m. scf_density_matrix env (ds ! k) ''sto-3g'' = Inl (Exception (Inr m)) \<longrightarrow>
                     map_of (errors out) (int k) = Some (error_message (int k) m)
                     \<and> map_of (densities out) (int k) = None)
                \<and> (\<forall>v. scf_density_matrix env (ds ! k) ''sto-3g'' = Inr v \<longrightarrow>
                     map_of (densities out) (int k) = Some (Some v)
                     \<and> map_of (errors out) (int k) = None))))"
proof (intro conjI impI)
  assume "scf_density_matrix env atoms ''sto-3g'' = Inl (Exception (Inr s))"
  then show "compute_density_safe env (idx, atoms)
        = ([Print (error_message idx s)], Inr (idx, None, Some (error_message idx s)))"
    by (simp add: compute_density_safe_def Let_def)
  show "error_message idx s \<noteq> []"
    by (rule error_message_nonempty)
next
  assume h: "load_dataset env ''QM7'' ''data'' = Inr ds \<and> Pool env 32 = None
        \<and> (\<forall>a\<in>set ds. \<forall>x. scf_density_matrix env a ''sto-3g'' = Inl x
              \<longrightarrow> (\<exists>m. x = Exception (Inr m)))"
  then obtain out where o: "snd (main env) = Inr out"
    using main_completes [of env ds] by blast
  have l: "load_dataset env ''QM7'' ''data'' = Inr ds" using h by simp
  have "map_of (errors out) (int k) = Some (error_message (int k) m)
          \<and> map_of (densities out) (int k) = None"
    if "k < length ds" "scf_density_matrix env (ds ! k) ''sto-3g'' = Inl (Exception (Inr m))"
    for k m
    using run_outcome_failure [OF o l that] by simp
  moreover have "map_of (densities out) (int k) = Some (Some v)
          \<and> map_of (errors out) (int k) = None"
    if "k < length ds" "scf_density_matrix env (ds ! k) ''sto-3g'' = Inr v" for k v
    using run_outcome_success [OF o l that] by simp
  ultimately show "\<exists>out. snd (main env) = Inr out
             \<and> written (fst (main env)) = [(''densities.pkl'', out)]
             \<and> (\<forall>k<length ds.
                  (\<forall>m. scf_density_matrix env (ds ! k) ''sto-3g'' = Inl (Exception (Inr m)) \<longrightarrow>
                     map_of (errors out) (int k) = Some (error_message (int k) m)
                     \<and> map_of (densities out) (int k) = None)
                \<and> (\<forall>v. scf_density_matrix env (ds ! k) ''sto-3g'' = Inr v \<longrightarrow>
                     map_of (densities out) (int k) = Some (Some v)
                     \<and> map_of (errors out) (int k) = None))"
    using o written_main_success [OF o] by blast
qed

text \<open>The theorem at a concrete run.\<close>

theorem exception_becomes_failure_record_witness:
  "scf_density_matrix example_env 2 ''sto-3g'' = Inl (Exception (Inr ''malformed''))
   \<and> compute_density_safe example_env (2, 2)
        = ([Print (error_message 2 ''malformed'')], Inr (2, None, Some (error_message 2 ''malformed'')))
   \<and> error_message 2 ''malformed'' = ''Error computing density for molecule 2: malformed''
   \<and> load_dataset example_env ''QM7'' ''data'' = Inr [0, 1, 2, 3, 4]
   \<and> Pool example_env 32 = None
   \<and> (\<exists>out. snd (main example_env) = Inr out
         \<and> written (fst (main example_env)) = [(''densities.pkl'', out)]
         \<and> map_of (errors out) (int 2) = Some (error_message (int 2) ''malformed'')
         \<and> map_of (densities out) (int 2) = None
         \<and> map_of (densities out) (int 3) = Some (Some 30)
         \<and> map_of (errors out) (int 3) = None)"
proof -
  have h1: "scf_density_matrix example_env 2 ''sto-3g'' = Inl (Exception (Inr ''malformed''))"
    by (simp add: example_env_def example_scf_def)
  have h2: "load_dataset example_env ''QM7'' ''data'' = Inr [0, 1, 2, 3, 4]"
    by (simp add: example_env_def)
  have h3: "Pool example_env 32 = None"
    by (simp add: example_env_def)
  have h4: "\<forall>a\<in>set [0, 1, 2, 3, 4]. \<forall>x. scf_density_matrix example_env a ''sto-3g'' = Inl x
              \<longrightarrow> (\<exists>m. x = Exception (Inr m))"
    by (simp add: example_env_def example_scf_def)
  have h5: "error_message 2 ''malformed'' = ''Error computing density for molecule 2: malformed''"
    by code_simp
  have k2: "scf_density_matrix example_env ([0, 1, 2, 3, 4] ! 2) ''sto-3g''
              = Inl (Exception (Inr ''malformed''))"
    by (simp add: example_env_def example_scf_def)
  have k3: "scf_density_matrix example_env ([0, 1, 2, 3, 4] ! 3) ''sto-3g'' = Inr 30"
    by (simp add: example_env_def example_scf_def)
  from exception_becomes_failure_record [of example_env 2 "''malformed''" 2 "[0, 1, 2, 3, 4]"]
  have a: "compute_density_safe example_env (2, 2)
        = ([Print (error_message 2 ''malformed'')], Inr (2, None, Some (error_message 2 ''malformed'')))"
    and b: "\<exists>out. snd (main example_env) = Inr out
             \<and> written (fst (main example_env)) = [(''densities.pkl'', out)]
             \<and> (\<forall>k<length [0, 1, 2, 3, 4 :: nat].
                  (\<forall>m. scf_density_matrix example_env ([0, 1, 2, 3, 4] ! k) ''sto-3g''
                         = Inl (Exception (Inr m)) \<longrightarrow>
                     map_of (errors out) (int k) = Some (error_message (int k) m)
                     \<and> map_of (densities out) (int k) = None)
                \<and> (\<forall>v. scf_density_matrix example_env ([0, 1, 2, 3, 4] ! k) ''sto-3g'' = Inr v \<longrightarrow>
                     map_of (densities out) (int k) = Some (Some v)
                     \<and> map_of (errors out) (int k) = None))"
    using h1 h2 h3 h4 by blast+
  from b obtain out where o: "snd (main example_env) = Inr out"
    and w: "written (fst (main example_env)) = [(''densities.pkl'', out)]"
    and q: "\<forall>k<length [0, 1, 2, 3, 4 :: nat].
                  (\<forall>m. scf_density_matrix example_env ([0, 1, 2, 3, 4] ! k) ''sto-3g''
                         = Inl (Exception (Inr m)) \<longrightarrow>
                     map_of (errors out) (int k) = Some (error_message (int k) m)
                     \<and> map_of (densities out) (int k) = None)
                \<and> (\<forall>v. scf_density_matrix example_env ([0, 1, 2, 3, 4] ! k) ''sto-3g'' = Inr v \<longrightarrow>
                     map_of (densities out) (int k) = Some (Some v)
                     \<and> map_of (errors out) (int k) = None)"
    by blast
  have "map_of (errors out) (int 2) = Some (error_message (int 2) ''malformed'')
         \<and> map_of (densities out) (int 2) = None"
    using q [rule_format, of 2] k2 by simp
  moreover have "map_of (densities out) (int 3) = Some (Some 30) \<and> map_of (errors out) (int 3) = None"
    using q [rule_format, of 3] k3 by simp
  ultimately show ?thesis
    using h1 h2 h3 h5 a o w by blast
qed

subsection \<open>C4\<close>

text \<open>
  C4. Whatever the order in which the result triples of a run are handed to the
  separation loop, the two dictionaries map the same keys to the same values: the loop
  goes by the index inside each triple.
\<close>

theorem separation_independent_of_completion_order:
  assumes "snd (pool_map (compute_density_safe env) (enumerate_from ds)) = Inr results"
    and "mset completed = mset results"
  shows "map_of (fst (separate completed [] [])) = map_of (fst (separate results [] []))
       \<and> map_of (snd (separate completed [] [])) = map_of (snd (separate results [] []))"
proof -
  have p: "pool_map (compute_density_safe env) (enumerate_from ds)
             = (fst (pool_map (compute_density_safe env) (enumerate_from ds)), Inr results)"
    using assms(1) by (metis prod.collapse)
  have d: "distinct (map fst results)" using p by (rule results_distinct)
  have "mset (map fst completed) = mset (map fst results)"
    using assms(2) by (metis mset_map)
  then have d': "distinct (map fst completed)"
    using d by (metis mset_eq_imp_distinct_iff)
  have "set completed = set results"
    using assms(2) by (rule mset_eq_setD)
  then have m: "map_of completed = map_of results"
    using d d' by (metis map_of_inject_set)
  show ?thesis
    by (intro conjI ext) (simp_all add: map_of_separate_fst [OF d] map_of_separate_fst [OF d']
        map_of_separate_snd [OF d] map_of_separate_snd [OF d'] m)
qed

text \<open>The theorem at a concrete run.\<close>

theorem separation_independent_of_completion_order_witness:
  "snd (pool_map (compute_density_safe abc_env) (enumerate_from [''A'', ''B'', ''C'']))
     = Inr [(0, Some ''resultA'', None),
            (1, None, Some ''Error computing density for molecule 1: message''),
            (2, Some ''resultC'', None)]
   \<and> mset [(2, Some ''resultC'', None),
            (0, Some ''resultA'', None),
            (1, None, Some ''Error computing density for molecule 1: message'')]
       = mset [(0 :: int, Some ''resultA'', None),
               (1, None, Some ''Error computing density for molecule 1: message''),
               (2, Some ''resultC'', None)]
   \<and> map_of (fst (separate [(2, Some ''resultC'', None),
            (0, Some ''resultA'', None),
            (1, None, Some ''Error computing density for molecule 1: message'')] [] []))
       = map_of [(0, Some ''resultA''), (2, Some ''resultC'')]
   \<and> map_of (snd (separate [(2, Some ''resultC'', None),
            (0, Some ''resultA'', None),
            (1, None, Some ''Error computing density for molecule 1: message'')] [] []))
       = map_of [(1, ''Error computing density for molecule 1: message'')]"
proof -
  have h1: "snd (pool_map (compute_density_safe abc_env) (enumerate_from [''A'', ''B'', ''C'']))
     = Inr [(0, Some ''resultA'', None),
            (1, None, Some ''Error computing density for molecule 1: message''),
            (2, Some ''resultC'', None)]"
    by code_simp
  have h2: "mset [(2, Some ''resultC'', None),
            (0, Some ''resultA'', None),
            (1, None, Some ''Error computing density for molecule 1: message'')]
       = mset [(0 :: int, Some ''resultA'', None),
               (1, None, Some ''Error computing density for molecule 1: message''),
               (2, Some ''resultC'', None)]"
    by simp
  show ?thesis
    using h1 h2 separation_independent_of_completion_order [OF h1 h2] by simp
qed

subsection \<open>C5\<close>

text \<open>
  C5. In every run that writes its output, \<open>successful + failed = total_molecules = N\<close>,
  where \<open>N\<close> is the length of the loaded dataset, \<open>successful\<close> the size of \<open>densities\<close>
  and \<open>failed\<close> the size of \<open>errors\<close>.
\<close>

theorem metadata_counts:
  assumes "snd (main env) = Inr out"
    and "load_dataset env ''QM7'' ''data'' = Inr ds"
  shows "successful (metadata out) + failed (metadata out) = total_molecules (metadata out)
       \<and> total_molecules (metadata out) = len ds
       \<and> successful (metadata out) = len (densities out)
       \<and> failed (metadata out) = len (errors out)"
proof -
  from assms(1) obtain ds' evw rs where
    l: "load_dataset env ''QM7'' ''data'' = Inr ds'"
    and p: "pool_map (compute_density_safe env) (enumerate_from ds') = (evw, Inr rs)"
    and o: "out = make_output ds' (fst (separate rs [] [])) (snd (separate rs [] []))"
    by (rule main_success)
  have ds: "ds' = ds" using l assms(2) by simp
  have "length (fst (separate rs [] [])) + length (snd (separate rs [] [])) = length rs"
    using results_distinct [OF p] by (rule separate_lengths)
  also have "\<dots> = length ds"
    using results_nth(1) [OF p] ds by simp
  finally show ?thesis
    by (simp add: o make_output_def len_def ds)
qed

text \<open>The theorem at a concrete run.\<close>

theorem metadata_counts_witness:
  "snd (main example_env)
     = Inr \<lparr> densities = [(0, Some 0), (1, Some 10), (3, Some 30), (4, Some 40)],
             errors = [(2, ''Error computing density for molecule 2: malformed'')],
             metadata = \<lparr> basis = ''sto-3g'', total_molecules = 5, successful = 4, failed = 1 \<rparr> \<rparr>
   \<and> load_dataset example_env ''QM7'' ''data'' = Inr [0, 1, 2, 3, 4]
   \<and> (4::int) + 1 = 5 \<and> 5 = len [0, 1, 2, 3, 4 :: nat]"
proof -
  have h1: "snd (main example_env)
     = Inr \<lparr> densities = [(0, Some 0), (1, Some 10), (3, Some 30), (4, Some 40)],
             errors = [(2, ''Error computing density for molecule 2: malformed'')],
             metadata = \<lparr> basis = ''sto-3g'', total_molecules = 5, successful = 4, failed = 1 \<rparr> \<rparr>"
    by code_simp
  have h2: "load_dataset example_env ''QM7'' ''data'' = Inr [0, 1, 2, 3, 4]"
    by (simp add: example_env_def)
  show ?thesis
    using h1 h2 metadata_counts [OF h1 h2] by simp
qed

subsection \<open>C7\<close>

text \<open>
  C7. A run that does not complete (the dataset does not load, the pool does not start, a
  call in a worker raises) writes no file. A run that succeeds writes exactly one object, its output, to
  \<^verbatim>\<open>densities.pkl\<close>; the pool has been entered and left before the write, and only lines
  are printed after it.
\<close>

theorem artifact_written_once_at_end:
  "(snd (main env) = Inl failure \<longrightarrow> written (fst (main env)) = [])
   \<and> (snd (main env) = Inr out \<longrightarrow>
        written (fst (main env)) = [(''densities.pkl'', out)]
        \<and> (\<exists>pre post. fst (main env) = pre @ Pickle_dump ''densities.pkl'' out # post
              \<and> written pre = [] \<and> written post = []
              \<and> Pool_enter 32 \<in> set pre \<and> Pool_exit \<in> set pre \<and> set post \<subseteq> range Print))
   \<and> (load_dataset env ''QM7'' ''data'' = Inl e \<longrightarrow> snd (main env) = Inl (Load_failed e))
   \<and> (load_dataset env ''QM7'' ''data'' = Inr ds \<and> Pool env 32 = Some e
        \<longrightarrow> snd (main env) = Inl (Pool_failed e))
   \<and> (load_dataset env ''QM7'' ''data'' = Inr ds \<and> Pool env 32 = None
        \<and> snd (pool_map (compute_density_safe env) (enumerate_from ds)) = Inl e
        \<longrightarrow> snd (main env) = Inl (worker_failure e))"
proof -
  have "snd (main env) = Inl (Load_failed e)" if "load_dataset env ''QM7'' ''data'' = Inl e"
    using that by (simp add: main_def)
  moreover have "snd (main env) = Inl (Pool_failed e)"
    if "load_dataset env ''QM7'' ''data'' = Inr ds" "Pool env 32 = Some e"
    using that by (simp add: main_def Let_def)
  moreover have "snd (main env) = Inl (worker_failure e)"
    if "load_dataset env ''QM7'' ''data'' = Inr ds" "Pool env 32 = None"
      "snd (pool_map (compute_density_safe env) (enumerate_from ds)) = Inl e"
    using that
    by (cases "pool_map (compute_density_safe env) (enumerate_from ds)") (simp add: main_def Let_def)
  ultimately show ?thesis
    using written_main_failure [of env failure] written_main_success [of env out]
      main_trace_success [of env out]
    by blast
qed

text \<open>The theorem at a concrete run.\<close>

theorem artifact_written_once_at_end_witness:
  "snd (main example_env) = Inr example_output
   \<and> written (fst (main example_env)) = [(''densities.pkl'', example_output)]
   \<and> snd (main interrupted_env) = Inl (Worker_died keyboard_interrupt)
   \<and> written (fst (main interrupted_env)) = []
   \<and> load_dataset missing_dataset_env ''QM7'' ''data'' = Inl (Exception (Inr ''dataset not found''))
   \<and> snd (main missing_dataset_env) = Inl (Load_failed (Exception (Inr ''dataset not found'')))
   \<and> written (fst (main missing_dataset_env)) = []
   \<and> load_dataset no_pool_env ''QM7'' ''data'' = Inr [0, 1, 2, 3, 4]
   \<and> Pool no_pool_env 32 = Some (Exception (Inr ''[Errno 12] Cannot allocate memory''))
   \<and> snd (main no_pool_env) = Inl (Pool_failed (Exception (Inr ''[Errno 12] Cannot allocate memory'')))
   \<and> written (fst (main no_pool_env)) = []"
proof -
  have h1: "snd (main example_env) = Inr example_output"
    by code_simp
  have h2: "snd (main interrupted_env) = Inl (Worker_died keyboard_interrupt)"
    by code_simp
  have h3: "load_dataset missing_dataset_env ''QM7'' ''data'' = Inl (Exception (Inr ''dataset not found''))"
    by (simp add: missing_dataset_env_def)
  have h4: "load_dataset no_pool_env ''QM7'' ''data'' = Inr [0, 1, 2, 3, 4]"
    and h5: "Pool no_pool_env 32 = Some (Exception (Inr ''[Errno 12] Cannot allocate memory''))"
    by (simp_all add: no_pool_env_def)
  have a: "written (fst (main example_env)) = [(''densities.pkl'', example_output)]"
    using artifact_written_once_at_end [of example_env _ example_output] h1 by blast
  have b: "written (fst (main interrupted_env)) = []"
    using artifact_written_once_at_end [of interrupted_env "Worker_died keyboard_interrupt"] h2
    by blast
  have c: "snd (main missing_dataset_env) = Inl (Load_failed (Exception (Inr ''dataset not found'')))"
    using artifact_written_once_at_end [of missing_dataset_env _ _ "Exception (Inr ''dataset not found'')"] h3
    by blast
  have d: "written (fst (main missing_dataset_env)) = []"
    using artifact_written_once_at_end
      [of missing_dataset_env "Load_failed (Exception (Inr ''dataset not found''))"] c
    by blast
  have e: "snd (main no_pool_env) = Inl (Pool_failed (Exception (Inr ''[Errno 12] Cannot allocate memory'')))"
    using artifact_written_once_at_end
      [of no_pool_env _ _ "Exception (Inr ''[Errno 12] Cannot allocate memory'')" "[0, 1, 2, 3, 4]"] h4 h5
    by blast
  have f: "written (fst (main no_pool_env)) = []"
    using artifact_written_once_at_end
      [of no_pool_env "Pool_failed (Exception (Inr ''[Errno 12] Cannot allocate memory''))"] e
    by blast
  show ?thesis
    using h1 h2 h3 h4 h5 a b c d e f by simp
qed

subsection \<open>C8\<close>

text \<open>
  C8, as stated, fails. The interrupted run has a dataset of five items, the pool starts,
  and exactly the item at index 2 makes the computation raise; but what it raises is a
  \<^verbatim>\<open>KeyboardInterrupt\<close>, the run never returns, and no artifact is written.
\<close>

theorem interrupted_run_writes_nothing:
  "load_dataset interrupted_env ''QM7'' ''data'' = Inr [0, 1, 2, 3, 4]
   \<and> length [0, 1, 2, 3, 4 :: nat] = 5
   \<and> Pool interrupted_env 32 = None
   \<and> scf_density_matrix interrupted_env ([0, 1, 2, 3, 4] ! 0) ''sto-3g'' = Inr 0
   \<and> scf_density_matrix interrupted_env ([0, 1, 2, 3, 4] ! 1) ''sto-3g'' = Inr 10
   \<and> scf_density_matrix interrupted_env ([0, 1, 2, 3, 4] ! 2) ''sto-3g'' = Inl keyboard_interrupt
   \<and> scf_density_matrix interrupted_env ([0, 1, 2, 3, 4] ! 3) ''sto-3g'' = Inr 30
   \<and> scf_density_matrix interrupted_env ([0, 1, 2, 3, 4] ! 4) ''sto-3g'' = Inr 40
   \<and> snd (main interrupted_env) = Inl (Worker_died keyboard_interrupt)
   \<and> written (fst (main interrupted_env)) = []"
proof -
  have "load_dataset interrupted_env ''QM7'' ''data'' = Inr [0, 1, 2, 3, 4]"
    and "Pool interrupted_env 32 = None"
    and "scf_density_matrix interrupted_env ([0, 1, 2, 3, 4] ! 0) ''sto-3g'' = Inr 0"
    and "scf_density_matrix interrupted_env ([0, 1, 2, 3, 4] ! 1) ''sto-3g'' = Inr 10"
    and "scf_density_matrix interrupted_env ([0, 1, 2, 3, 4] ! 2) ''sto-3g'' = Inl keyboard_interrupt"
    and "scf_density_matrix interrupted_env ([0, 1, 2, 3, 4] ! 3) ''sto-3g'' = Inr 30"
    and "scf_density_matrix interrupted_env ([0, 1, 2, 3, 4] ! 4) ''sto-3g'' = Inr 40"
    by (simp_all add: interrupted_env_def interrupted_scf_def)
  moreover have "snd (main interrupted_env) = Inl (Worker_died keyboard_interrupt)"
    by code_simp
  moreover have "written (fst (main interrupted_env)) = []"
    by code_simp
  ultimately show ?thesis by simp
qed

text \<open>What a run of this scenario has written, if it has written its output.\<close>

lemma five_items_output:
  assumes "snd (main env) = Inr out"
    and "load_dataset env ''QM7'' ''data'' = Inr ds"
    and "length ds = 5"
    and "\<forall>k<5. (\<exists>e. scf_density_matrix env (ds ! k) ''sto-3g'' = Inl e) \<longleftrightarrow> k = 2"
    and "scf_density_matrix env (ds ! 2) ''sto-3g'' = Inl (Exception (Inr s))"
  shows "keys (densities out) = [0, 1, 3, 4]
       \<and> errors out = [(2, error_message 2 s)]
       \<and> metadata out = \<lparr> basis = ''sto-3g'', total_molecules = 5, successful = 4, failed = 1 \<rparr>"
proof -
  from assms(1,2) obtain evw rs where
    p: "pool_map (compute_density_safe env) (enumerate_from ds) = (evw, Inr rs)"
    and D: "densities out = fst (separate rs [] [])"
    and E: "errors out = snd (separate rs [] [])"
    and M: "metadata out = \<lparr> basis = ''sto-3g'', total_molecules = len ds,
                       successful = len (densities out), failed = len (errors out) \<rparr>"
    by (rule run_results)
  have ok: "\<exists>v. rs ! k = (int k, Some v, None)" if "k < 5" "k \<noteq> 2" for k
  proof -
    have "\<not> (\<exists>e. scf_density_matrix env (ds ! k) ''sto-3g'' = Inl e)"
      using assms(4) that by blast
    moreover have "k < length ds" using that assms(3) by simp
    ultimately show ?thesis
      using compute_density_safe_cases [OF results_nth(2) [OF p]] by blast
  qed
  have "snd (compute_density_safe env (int 2, ds ! 2)) = Inr (rs ! 2)"
    using results_nth(2) [OF p, of 2] assms(3) by simp
  then have r2: "rs ! 2 = (2, None, Some (error_message 2 s))"
    using compute_density_safe_cases [of env "int 2" "ds ! 2" "rs ! 2"] assms(5) by auto
  obtain v0 where r0: "rs ! 0 = (0, Some v0, None)" using ok [of 0] by auto
  obtain v1 where r1: "rs ! 1 = (1, Some v1, None)" using ok [of 1] by auto
  obtain v3 where r3: "rs ! 3 = (3, Some v3, None)" using ok [of 3] by auto
  obtain v4 where r4: "rs ! 4 = (4, Some v4, None)" using ok [of 4] by auto
  have "length rs = 5" using results_nth(1) [OF p] assms(3) by simp
  then have "rs = [rs ! 0, rs ! 1, rs ! 2, rs ! 3, rs ! 4]"
    by (auto simp: list_eq_iff_nth_eq nth_Cons' less_Suc_eq eval_nat_numeral)
  then have rs: "rs = [(0, Some v0, None), (1, Some v1, None), (2, None, Some (error_message 2 s)),
                       (3, Some v3, None), (4, Some v4, None)]"
    using r0 r1 r2 r3 r4 by simp
  have d: "densities out = [(0, Some v0), (1, Some v1), (3, Some v3), (4, Some v4)]"
    and e: "errors out = [(2, error_message 2 s)]"
    by (simp_all add: D E rs)
  show ?thesis
    by (simp add: d e M keys_def len_def assms(3))
qed

text \<open>
  C8, amended. When the dataset has five items, the pool starts, and the computation
  raises exactly on the item at index 2, an instance of \<^verbatim>\<open>Exception\<close> whose \<^verbatim>\<open>str\<close> returns
  \<open>s\<close>, the run writes one artifact: \<open>densities\<close> has the keys 0, 1, 3, 4, \<open>errors\<close> has
  the one key 2 with the non-empty message built from \<open>s\<close>, and the metadata are
  \<open>total_molecules = 5\<close>, \<open>successful = 4\<close>, \<open>failed = 1\<close>.
\<close>

theorem five_items_third_fails:
  assumes "load_dataset env ''QM7'' ''data'' = Inr ds"
    and "Pool env 32 = None"
    and "length ds = 5"
    and "\<forall>k<5. (\<exists>e. scf_density_matrix env (ds ! k) ''sto-3g'' = Inl e) \<longleftrightarrow> k = 2"
    and "scf_density_matrix env (ds ! 2) ''sto-3g'' = Inl (Exception (Inr s))"
  shows "\<exists>out. snd (main env) = Inr out
       \<and> written (fst (main env)) = [(''densities.pkl'', out)]
       \<and> keys (densities out) = [0, 1, 3, 4]
       \<and> errors out = [(2, error_message 2 s)]
       \<and> error_message 2 s \<noteq> []
       \<and> metadata out = \<lparr> basis = ''sto-3g'', total_molecules = 5, successful = 4, failed = 1 \<rparr>"
proof -
  have "\<exists>m. x = Exception (Inr m)"
    if "a \<in> set ds" "scf_density_matrix env a ''sto-3g'' = Inl x" for a x
  proof -
    from that(1) obtain j where j: "j < length ds" "a = ds ! j"
      by (auto simp: in_set_conv_nth)
    then have "j = 2" using assms(3,4) that(2) by auto
    then show ?thesis using assms(5) j that(2) by auto
  qed
  then obtain out where o: "snd (main env) = Inr out"
    using main_completes [OF assms(1,2)] by blast
  show ?thesis
    using o written_main_success [OF o] five_items_output [OF o assms(1,3,4,5)]
      error_message_nonempty [of 2 s]
    by blast
qed

text \<open>The theorem at a concrete run.\<close>

theorem five_items_third_fails_witness:
  "load_dataset example_env ''QM7'' ''data'' = Inr [0, 1, 2, 3, 4]
   \<and> Pool example_env 32 = None
   \<and> length [0, 1, 2, 3, 4 :: nat] = 5
   \<and> scf_density_matrix example_env ([0, 1, 2, 3, 4] ! 2) ''sto-3g''
        = Inl (Exception (Inr ''malformed''))
   \<and> snd (main example_env) = Inr example_output
   \<and> written (fst (main example_env)) = [(''densities.pkl'', example_output)]
   \<and> keys (densities example_output) = [0, 1, 3, 4]
   \<and> errors example_output = [(2, ''Error computing density for molecule 2: malformed'')]
   \<and> metadata example_output
        = \<lparr> basis = ''sto-3g'', total_molecules = 5, successful = 4, failed = 1 \<rparr>"
proof -
  have h1: "load_dataset example_env ''QM7'' ''data'' = Inr [0, 1, 2, 3, 4]"
    by (simp add: example_env_def)
  have h2: "Pool example_env 32 = None"
    by (simp add: example_env_def)
  have h3: "length [0, 1, 2, 3, 4 :: nat] = 5"
    by simp
  have h4: "\<forall>k<5. (\<exists>e. scf_density_matrix example_env ([0, 1, 2, 3, 4] ! k) ''sto-3g'' = Inl e)
                    \<longleftrightarrow> k = 2"
    by (auto simp: example_env_def example_scf_def nth_Cons' less_Suc_eq eval_nat_numeral)
  have h5: "scf_density_matrix example_env ([0, 1, 2, 3, 4] ! 2) ''sto-3g''
              = Inl (Exception (Inr ''malformed''))"
    by (simp add: example_env_def example_scf_def)
  have r: "snd (main example_env) = Inr example_output"
    by code_simp
  obtain out where o: "snd (main example_env) = Inr out"
    and w: "written (fst (main example_env)) = [(''densities.pkl'', out)]"
    using five_items_third_fails [OF h1 h2 h3 h4 h5] by blast
  have "out = example_output" using o r by simp
  then show ?thesis
    using h1 h2 h3 h5 r w by (simp add: example_output_def keys_def)
qed

subsection \<open>C9\<close>

text \<open>
  C9. A triple returned by \<^verbatim>\<open>compute_density_safe\<close> on \<open>(idx, atoms)\<close> has \<open>idx\<close> as its
  first component, and exactly one of its second and third components is \<^verbatim>\<open>None\<close>.
\<close>

theorem compute_density_safe_index:
  assumes "snd (compute_density_safe env (idx, atoms)) = Inr (i, density_matrix, error_msg)"
  shows "i = idx \<and> (density_matrix = None) \<noteq> (error_msg = None)"
  using compute_density_safe_cases [OF assms] by auto

text \<open>The theorem at a concrete run.\<close>

theorem compute_density_safe_index_witness:
  "snd (compute_density_safe example_env (7, 2))
     = Inr (7, None, Some ''Error computing density for molecule 7: malformed'')
   \<and> snd (compute_density_safe example_env (7, 3)) = Inr (7, Some 30, None)
   \<and> (7::int) = 7
   \<and> ((None :: int option) = None) \<noteq> (Some ''Error computing density for molecule 7: malformed'' = None)
   \<and> (Some (30::int) = None) \<noteq> ((None :: string option) = None)"
proof -
  have h1: "snd (compute_density_safe example_env (7, 2))
     = Inr (7, None, Some ''Error computing density for molecule 7: malformed'')"
    by code_simp
  have h2: "snd (compute_density_safe example_env (7, 3)) = Inr (7, Some 30, None)"
    by code_simp
  show ?thesis
    using h1 h2 compute_density_safe_index [OF h1] compute_density_safe_index [OF h2] by simp
qed

subsection \<open>C10\<close>

text \<open>
  C10. On an empty dataset, when the pool starts, the run completes and writes an output
  with both dictionaries empty and all three counts 0.
\<close>

theorem empty_dataset_run:
  assumes "load_dataset env ''QM7'' ''data'' = Inr []"
    and "Pool env 32 = None"
  shows "snd (main env)
           = Inr \<lparr> densities = [], errors = [],
                   metadata = \<lparr> basis = ''sto-3g'', total_molecules = 0,
                                successful = 0, failed = 0 \<rparr> \<rparr>
       \<and> written (fst (main env))
           = [(''densities.pkl'',
               \<lparr> densities = [], errors = [],
                 metadata = \<lparr> basis = ''sto-3g'', total_molecules = 0,
                              successful = 0, failed = 0 \<rparr> \<rparr>)]"
  using assms
  by (simp add: main_def Let_def enumerate_from_def make_output_def len_def save_and_report_def)

text \<open>The theorem at a concrete run.\<close>

theorem empty_dataset_run_witness:
  "load_dataset empty_env ''QM7'' ''data'' = Inr []
   \<and> Pool empty_env 32 = None
   \<and> snd (main empty_env)
        = Inr \<lparr> densities = [], errors = [],
                metadata = \<lparr> basis = ''sto-3g'', total_molecules = 0,
                             successful = 0, failed = 0 \<rparr> \<rparr>
   \<and> written (fst (main empty_env))
        = [(''densities.pkl'',
            \<lparr> densities = [], errors = [],
              metadata = \<lparr> basis = ''sto-3g'', total_molecules = 0,
                           successful = 0, failed = 0 \<rparr> \<rparr>)]"
proof -
  have h1: "load_dataset empty_env ''QM7'' ''data'' = Inr []"
    by (simp add: empty_env_def)
  have h2: "Pool empty_env 32 = None"
    by (simp add: empty_env_def)
  show ?thesis
    using h1 h2 empty_dataset_run [OF h1 h2] by simp
qed

end
